theory Spec2Isabelle
  imports Main "HOL-Library.Word" "HOL-Library.AList"
begin

section \<open>Machine provisioning: data model\<close>

text \<open>
  The handler of package \<open>machineprovision\<close> reconciles an infrastructure machine
  (an unstructured Kubernetes object) with the job that creates or deletes it.
  Go values are modelled as follows.
  \<^item> An \<open>error\<close> is a value of the datatype below; \<open>nil\<close> is \<open>None\<close> of
    \<open>error option\<close>. \<open>generic.ErrSkip\<close> is a constructor of its own, a not-found
    API error another. A run-time panic is not an error return (it unwinds through
    every caller), so it has its own constructor and no branch on \<open>err\<close> catches it.
  \<^item> A Go result \<open>(runtime.Object, error)\<close> in which both components may be set is
    a pair of options; a lookup that yields either a value or an error is a sum.
  \<^item> \<open>map[string]interface{}\<close> is an association list read through \<open>map_of\<close>.
  \<^item> An instant is an integer counted from Go's zero time, so \<open>IsZero\<close> is \<open>= 0\<close>.
\<close>

datatype error = ErrSkip | NotFound string | Failure string | Panic string

type_synonym time = int

datatype jvalue =
    JNull
  | JBool bool
  | JString string
  | JNumber int
  | JList "jvalue list"
  | JMap "(string \<times> jvalue) list"

type_synonym jmap = "(string \<times> jvalue) list"

definition IsNotFound :: "error \<Rightarrow> bool" where
  "IsNotFound err = (case err of NotFound m \<Rightarrow> True | _ \<Rightarrow> False)"


record GroupVersionKind =
  Group :: string
  Version :: string
  Kind :: string

record OwnerReference =
  owner_Kind :: string
  owner_Name :: string

text \<open>A typed condition, as in \<open>job.Status.Conditions\<close> and \<open>machine.Status.Conditions\<close>.\<close>

record Condition =
  cond_Type :: string
  cond_Status :: string
  cond_Reason :: string
  cond_Message :: string

text \<open>
  The wrangler helper \<open>condition.Cond(name)\<close> reads the first condition whose type is
  \<open>name\<close>: \<open>IsTrue\<close> and \<open>IsFalse\<close> compare its status, \<open>GetReason\<close> returns its reason
  (the empty string when there is no such condition).
\<close>

definition findCond :: "string \<Rightarrow> Condition list \<Rightarrow> Condition option" where
  "findCond name conds = find (\<lambda>c. cond_Type c = name) conds"

definition Cond_IsTrue :: "string \<Rightarrow> Condition list \<Rightarrow> bool" where
  "Cond_IsTrue name conds =
     (case findCond name conds of None \<Rightarrow> False | Some c \<Rightarrow> cond_Status c = ''True'')"

definition Cond_IsFalse :: "string \<Rightarrow> Condition list \<Rightarrow> bool" where
  "Cond_IsFalse name conds =
     (case findCond name conds of None \<Rightarrow> False | Some c \<Rightarrow> cond_Status c = ''False'')"

definition Cond_GetReason :: "string \<Rightarrow> Condition list \<Rightarrow> string" where
  "Cond_GetReason name conds =
     (case findCond name conds of None \<Rightarrow> [] | Some c \<Rightarrow> cond_Reason c)"

subsection \<open>Jobs, pods and the machine status\<close>

record ContainerStateTerminated =
  ExitCode :: "32 word"
  Message :: string

text \<open>\<open>State.Terminated\<close> is a pointer: \<open>None\<close> is \<open>nil\<close>.\<close>

record ContainerStatus =
  Terminated :: "ContainerStateTerminated option"

record Pod =
  pod_Name :: string
  CreationTimestamp :: time
  Phase :: string
  ContainerStatuses :: "ContainerStatus list"

text \<open>A label selector and the selector the library compiles it to: requirements
  (key, operator, values). The translator only hands them on.\<close>

record LabelSelector =
  MatchLabels :: "(string \<times> string) list"
  MatchExpressions :: "(string \<times> string \<times> string list) list"

type_synonym Selector = "(string \<times> string \<times> string list) list"

record Job =
  job_Name :: string
  job_Namespace :: string
  CompletionTime :: "time option"
  job_Conditions :: "Condition list"
  job_Selector :: "LabelSelector option"

text \<open>
  \<open>rkev1.RKEMachineStatus\<close>, with the fields this file reads and writes. The zero
  value of the struct is \<open>RKEMachineStatus_zero\<close>.
\<close>

record RKEMachineStatus =
  JobComplete :: bool
  JobName :: string
  FailureReason :: string
  FailureMessage :: string

definition RKEMachineStatus_zero :: RKEMachineStatus where
  "RKEMachineStatus_zero =
     \<lparr>JobComplete = False, JobName = [], FailureReason = [], FailureMessage = []\<rparr>"

definition PodSucceeded :: string where
  "PodSucceeded = ''Succeeded''"

definition CreateMachineError :: string where
  "CreateMachineError = ''CreateError''"

definition DeleteMachineError :: string where
  "DeleteMachineError = ''DeleteError''"

subsection \<open>The infrastructure machine and the objects around it\<close>

text \<open>
  The infrastructure machine is an unstructured object. Its metadata is what
  \<open>meta.Accessor\<close> presents (Kubernetes validates it: labels are strings, and names
  and namespaces carry no surrounding white space, so \<open>d.String("metadata", "name")\<close>
  is the name itself); \<open>spec\<close> and \<open>status\<close> stay untyped maps. A missing
  \<open>spec\<close> is the empty map, a missing \<open>status\<close> is \<open>None\<close>.
\<close>

record Object =
  obj_GVK :: GroupVersionKind
  obj_Namespace :: string
  obj_Name :: string
  obj_Labels :: "(string \<times> string) list"
  obj_OwnerReferences :: "OwnerReference list"
  obj_DeletionTimestamp :: "time option"
  obj_spec :: jmap
  obj_status :: "jmap option"

record Namespace =
  ns_DeletionTimestamp :: "time option"

record Cluster =
  cluster_Name :: string
  cluster_DeletionTimestamp :: "time option"
  KubernetesVersion :: string

text \<open>\<open>NodeRef\<close> is \<open>machine.Status.NodeRef\<close>, a pointer; the value is the node's name.\<close>

record Machine =
  NodeRef :: "string option"
  machine_Conditions :: "Condition list"
  InfrastructureRef :: GroupVersionKind

record driverArgs =
  BootstrapSecretName :: string
  BootstrapOptional :: bool
  dargs_RKEMachineStatus :: RKEMachineStatus
  dargs_Args :: "string list"

text \<open>A secret is its \<open>Data\<close> map; a child object is a kind and a name.\<close>

type_synonym Secret = "(string \<times> string) list"

type_synonym child = "string \<times> string"

subsection \<open>The handler and its effects\<close>

text \<open>
  The caches and controllers of the handler are functions that answer a call; the
  calls that change the world (a delayed enqueue, a status update, an apply) are also
  written to a log, in the order in which they are made. Every effectful function of
  the model returns its Go result together with its log. \<open>GetRESTConfig\<close> is the
  call of the kubeconfig manager and \<open>SafelyRemoved\<close> the check of package
  \<open>etcdmgmt\<close>; \<open>getArgsEnvAndStatus\<close> and \<open>objects\<close> are methods of the handler
  that are declared in other files. A delay is a number of seconds.
\<close>

datatype effect =
    EnqueueAfterCall GroupVersionKind string string nat
  | UpdateStatusCall Object
  | ApplyObjectsCall "Object option" bool "child list"

record handler =
  jobs_Get :: "string \<Rightarrow> string \<Rightarrow> error + Job"
  pods_List :: "string \<Rightarrow> Selector \<Rightarrow> error + Pod list"
  machines_Get :: "string \<Rightarrow> string \<Rightarrow> error + Machine"
  namespaces_Get :: "string \<Rightarrow> error + Namespace"
  rancherClusterCache_Get :: "string \<Rightarrow> string \<Rightarrow> error + Cluster"
  GetRESTConfig :: "Cluster \<Rightarrow> error + string"
  SafelyRemoved :: "string \<Rightarrow> string \<Rightarrow> string \<Rightarrow> error + bool"
  dynamic_EnqueueAfter :: "GroupVersionKind \<Rightarrow> string \<Rightarrow> string \<Rightarrow> nat \<Rightarrow> error option"
  dynamic_UpdateStatus :: "Object \<Rightarrow> Object option \<times> error option"
  apply_ApplyObjects :: "Object option \<Rightarrow> bool \<Rightarrow> child list \<Rightarrow> error option"
  getArgsEnvAndStatus :: "Object \<Rightarrow> Object \<Rightarrow> jmap \<Rightarrow> string \<Rightarrow> bool \<Rightarrow> error + driverArgs"
  objects :: "bool \<Rightarrow> Object \<Rightarrow> driverArgs \<Rightarrow> Secret option \<Rightarrow> error + child list"

type_synonym result = "(Object option \<times> error option) \<times> effect list"

subsection \<open>Library functions and package constants taken as parameters\<close>

text \<open>
  Functions of the Go standard library and of wrangler, and constants and tables of
  the repository that are declared in other files, are parameters of the model.
  \<open>SchemaToDriverFields\<close> returns a driver's table of aliased fields as a list: the
  order of the list is the order in which Go happens to range over the map.
\<close>

record extern =
  ToString :: "jvalue \<Rightarrow> string"
  ToBool :: "jvalue \<Rightarrow> bool"
  TrimSpace :: "string \<Rightarrow> string"
  path_Join :: "string \<Rightarrow> string \<Rightarrow> string"
  LabelSelectorAsSelector :: "LabelSelector option \<Rightarrow> error + Selector"
  SchemaToDriverFields :: "string \<Rightarrow> (string \<times> string) list option"
  SSHKeyFields :: "string \<Rightarrow> bool"
  pathToMachineFiles :: string
  CapiMachineLabel :: string
  getNodeDriverName :: "GroupVersionKind \<Rightarrow> string"
  getJobName :: "string \<Rightarrow> string"
  GetRuntimeCommand :: "string \<Rightarrow> string"
  more_conditions :: "Object \<Rightarrow> (string \<times> jvalue) list list"

section \<open>The job-status translator\<close>

text \<open>
  \<open>getMachineStatusFromPod\<close>: a succeeded pod is a complete job. Otherwise the first
  container status with a terminated state and a non-zero exit code decides that the
  job failed; the message is read from \<open>ContainerStatuses[0].State.Terminated\<close>, which
  is a nil pointer dereference when the first container has no terminated state.
\<close>

definition first_terminated_message :: "ContainerStatus list \<Rightarrow> error + string" where
  "first_terminated_message css =
     (case css of
        [] \<Rightarrow> Inl (Panic ''index out of range'')
      | cs # rest \<Rightarrow>
          (case Terminated cs of
             None \<Rightarrow> Inl (Panic ''nil pointer dereference'')
           | Some t \<Rightarrow> Inr (Message t)))"

fun container_loop ::
  "extern \<Rightarrow> Pod \<Rightarrow> bool \<Rightarrow> ContainerStatus list \<Rightarrow> error + RKEMachineStatus" where
  "container_loop X pod create [] = Inr RKEMachineStatus_zero"
| "container_loop X pod create (containerStatus # rest) =
     (if (case Terminated containerStatus of None \<Rightarrow> False | Some t \<Rightarrow> ExitCode t \<noteq> 0)
      then
        (let reason = (if create then CreateMachineError else DeleteMachineError)
         in case first_terminated_message (ContainerStatuses pod) of
              Inl e \<Rightarrow> Inl e
            | Inr msg \<Rightarrow>
                Inr (RKEMachineStatus_zero
                      \<lparr>FailureReason := reason, FailureMessage := TrimSpace X msg\<rparr>))
      else container_loop X pod create rest)"

definition getMachineStatusFromPod :: "extern \<Rightarrow> Pod \<Rightarrow> bool \<Rightarrow> error + RKEMachineStatus" where
  "getMachineStatusFromPod X pod create =
     (if Phase pod = PodSucceeded
      then Inr (RKEMachineStatus_zero\<lparr>JobComplete := True\<rparr>)
      else container_loop X pod create (ContainerStatuses pod))"

text \<open>The loop that keeps the most recently created pod (the first one on a tie).\<close>

fun lastPod_loop :: "Pod option \<Rightarrow> Pod list \<Rightarrow> Pod option" where
  "lastPod_loop lastPod [] = lastPod"
| "lastPod_loop None (pod # pods) = lastPod_loop (Some pod) pods"
| "lastPod_loop (Some lastPod) (pod # pods) =
     (if CreationTimestamp pod > CreationTimestamp lastPod
      then lastPod_loop (Some pod) pods
      else lastPod_loop (Some lastPod) pods)"

definition getMachineStatus ::
  "extern \<Rightarrow> handler \<Rightarrow> Job \<Rightarrow> bool \<Rightarrow> error + RKEMachineStatus" where
  "getMachineStatus X h job create =
     (if CompletionTime job \<noteq> None
      then Inr (RKEMachineStatus_zero\<lparr>JobComplete := True\<rparr>)
      else if Cond_IsTrue ''Failed'' (job_Conditions job)
      then
        (case LabelSelectorAsSelector X (job_Selector job) of
           Inl err \<Rightarrow> Inl err
         | Inr sel \<Rightarrow>
             (case pods_List h (job_Namespace job) sel of
                Inl err \<Rightarrow> Inl err
              | Inr pods \<Rightarrow>
                  (case lastPod_loop None pods of
                     Some lastPod \<Rightarrow> getMachineStatusFromPod X lastPod create
                   | None \<Rightarrow> Inr RKEMachineStatus_zero)))
      else Inr RKEMachineStatus_zero)"

text \<open>A container status that decides the failure: terminated with a non-zero exit code.\<close>

definition failed_container :: "ContainerStatus \<Rightarrow> bool" where
  "failed_container cs = (case Terminated cs of None \<Rightarrow> False | Some t \<Rightarrow> ExitCode t \<noteq> 0)"

section \<open>The status and condition patcher\<close>

text \<open>
  \<open>data.Convert\<close> of an unstructured object returns its content and cannot fail, and
  \<open>DeepCopyObject\<close> is the identity on values; the error branches of the source stay
  in the model.
\<close>

definition data_Convert :: "Object \<Rightarrow> error + Object" where
  "data_Convert obj = Inr obj"

text \<open>
  \<open>convert.EncodeToMap\<close> of the status struct: every field is \<open>omitempty\<close>, so a
  false boolean and an empty string leave no key.
\<close>

definition EncodeToMap :: "RKEMachineStatus \<Rightarrow> error + jmap" where
  "EncodeToMap state =
     Inr ((if JobComplete state then [(''jobComplete'', JBool True)] else []) @
          (if JobName state \<noteq> [] then [(''jobName'', JString (JobName state))] else []) @
          (if FailureReason state \<noteq> [] then [(''failureReason'', JString (FailureReason state))] else []) @
          (if FailureMessage state \<noteq> [] then [(''failureMessage'', JString (FailureMessage state))] else []))"

text \<open>\<open>d.String("status", k)\<close> and \<open>d.Bool("status", k)\<close>: a missing value is \<open>nil\<close>.\<close>

definition status_value :: "Object \<Rightarrow> string \<Rightarrow> jvalue" where
  "status_value d k =
     (case obj_status d of
        None \<Rightarrow> JNull
      | Some status \<Rightarrow> (case map_of status k of None \<Rightarrow> JNull | Some v \<Rightarrow> v))"

definition status_String :: "extern \<Rightarrow> Object \<Rightarrow> string \<Rightarrow> string" where
  "status_String X d k = ToString X (status_value d k)"

definition status_Bool :: "extern \<Rightarrow> Object \<Rightarrow> string \<Rightarrow> bool" where
  "status_Bool X d k = ToBool X (status_value d k)"

definition reset_failure :: "jmap \<Rightarrow> jmap" where
  "reset_failure statusData =
     (let sd1 = (if map_of statusData ''failureMessage'' = None
                 then AList.update ''failureMessage'' (JString []) statusData else statusData)
      in if map_of sd1 ''failureReason'' = None
         then AList.update ''failureReason'' (JString []) sd1 else sd1)"

definition desired_statusData :: "RKEMachineStatus \<Rightarrow> jmap \<Rightarrow> jmap" where
  "desired_statusData state statusData =
     (if JobComplete state then reset_failure statusData else statusData)"

text \<open>The desired fields of a status: its encoding, after the reset of the failure fields.\<close>

definition statusData_of :: "RKEMachineStatus \<Rightarrow> jmap" where
  "statusData_of state =
     (case EncodeToMap state of Inl err \<Rightarrow> [] | Inr encoded \<Rightarrow> desired_statusData state encoded)"

definition status_changed :: "extern \<Rightarrow> Object \<Rightarrow> jmap \<Rightarrow> bool" where
  "status_changed X d statusData =
     list_ex (\<lambda>(k, v). status_String X d k \<noteq> ToString X v) statusData"

definition merge_status :: "jmap \<Rightarrow> jmap \<Rightarrow> jmap" where
  "merge_status status statusData = foldl (\<lambda>st (k, v). AList.update k v st) status statusData"

definition patchStatus :: "extern \<Rightarrow> handler \<Rightarrow> Object \<Rightarrow> Object \<Rightarrow> RKEMachineStatus \<Rightarrow> result" where
  "patchStatus X h obj d state =
     (case EncodeToMap state of
        Inl err \<Rightarrow> ((None, Some err), [])
      | Inr encoded \<Rightarrow>
          (let statusData = desired_statusData state encoded
           in if \<not> status_changed X d statusData then ((Some obj, None), [])
              else
                (case data_Convert obj of
                   Inl err \<Rightarrow> ((None, Some err), [])
                 | Inr d' \<Rightarrow>
                     (let status = (case obj_status d' of None \<Rightarrow> [] | Some st \<Rightarrow> st);
                          d'' = d'\<lparr>obj_status := Some (merge_status status statusData)\<rparr>
                      in (dynamic_UpdateStatus h d'', [UpdateStatusCall d''])))))"

subsection \<open>Conditions of the unstructured object\<close>


definition map_String :: "extern \<Rightarrow> jmap \<Rightarrow> string \<Rightarrow> string" where
  "map_String X m k = ToString X (case map_of m k of None \<Rightarrow> JNull | Some v \<Rightarrow> v)"











section \<open>The file materializer\<close>

text \<open>
  \<open>constructFilesSecret\<close> ranges over the driver's aliased fields. One pass of the
  loop body: a field of the config that holds a string is deleted; unless the string
  is empty, it is stored in the secret under the file name, with a newline appended
  when it does not end with one, and the driver field is set to the path of the file.
  The function returns the config it has mutated, the secret (\<open>None\<close> is \<open>nil\<close>) and
  the error, which is always \<open>nil\<close>.
\<close>

definition newline :: char where
  "newline = CHR 0x0A"

definition HasSuffix :: "string \<Rightarrow> string \<Rightarrow> bool" where
  "HasSuffix s suffix \<longleftrightarrow>
     length suffix \<le> length s \<and> drop (length s - length suffix) s = suffix"

definition fileName_of :: "extern \<Rightarrow> string \<times> string \<Rightarrow> string" where
  "fileName_of X field =
     (if SSHKeyFields X (fst field) then ''id_rsa'' else snd field)"

definition file_step :: "extern \<Rightarrow> jmap \<times> Secret \<Rightarrow> string \<times> string \<Rightarrow> jmap \<times> Secret" where
  "file_step X acc field =
     (let config = fst acc; secretData = snd acc;
          schemaField = fst field; driverField = snd field
      in case map_of config schemaField of
           Some (JString fileContents) \<Rightarrow>
             (let config1 = AList.delete schemaField config
              in if fileContents = [] then (config1, secretData)
                 else
                   (let fileName = fileName_of X field;
                        fileContents' = (if \<not> HasSuffix fileContents [newline]
                                         then fileContents @ [newline] else fileContents)
                    in (AList.update driverField
                          (JString (path_Join X (pathToMachineFiles X) fileName)) config1,
                        AList.update fileName fileContents' secretData)))
         | _ \<Rightarrow> (config, secretData))"

definition constructFilesSecret ::
  "extern \<Rightarrow> string \<Rightarrow> jmap \<Rightarrow> jmap \<times> Secret option \<times> error option" where
  "constructFilesSecret X driver config =
     (case SchemaToDriverFields X driver of
        Some aliases \<Rightarrow>
          (let acc = foldl (file_step X) (config, []) aliases
           in (fst acc, Some (snd acc), None))
      | None \<Rightarrow> (config, None, None))"

text \<open>
  Two notions used to state what the materializer does. A string ends with exactly
  one newline when it ends with a newline and not with two. A table of aliased fields
  is free of collisions when its schema fields, its driver fields and its file names
  are pairwise distinct and no driver field is the schema field of another entry, so
  that no pass of the loop reads or overwrites what another pass wrote.
\<close>

definition exactly_one_trailing_newline :: "string \<Rightarrow> bool" where
  "exactly_one_trailing_newline s \<longleftrightarrow>
     HasSuffix s [newline] \<and> \<not> HasSuffix s [newline, newline]"

definition no_collisions :: "extern \<Rightarrow> (string \<times> string) list \<Rightarrow> bool" where
  "no_collisions X aliases \<longleftrightarrow>
     distinct (map fst aliases) \<and> distinct (map snd aliases) \<and>
     distinct (map (fileName_of X) aliases) \<and>
     list_all (\<lambda>f. list_all (\<lambda>g. f = g \<or> snd f \<noteq> fst g) aliases) aliases"

section \<open>The reconciliation engine and the teardown orchestrator\<close>

definition namespaceIsRemoved :: "handler \<Rightarrow> Object \<Rightarrow> bool \<times> error option" where
  "namespaceIsRemoved h obj =
     (case namespaces_Get h (obj_Namespace obj) of
        Inl err \<Rightarrow> (False, Some err)
      | Inr ns \<Rightarrow> (ns_DeletionTimestamp ns \<noteq> None, None))"

text \<open>\<open>getMachine\<close>: the machine named by the first owner reference of kind Machine;
  \<open>Inr None\<close> is the result \<open>(nil, nil)\<close>.\<close>

fun getMachine_loop :: "handler \<Rightarrow> string \<Rightarrow> OwnerReference list \<Rightarrow> error + Machine option" where
  "getMachine_loop h ns [] = Inr None"
| "getMachine_loop h ns (owner # rest) =
     (if owner_Kind owner = ''Machine''
      then (case machines_Get h ns (owner_Name owner) of
              Inl err \<Rightarrow> Inl err
            | Inr machine \<Rightarrow> Inr (Some machine))
      else getMachine_loop h ns rest)"

definition getMachine :: "handler \<Rightarrow> Object \<Rightarrow> error + Machine option" where
  "getMachine h obj = getMachine_loop h (obj_Namespace obj) (obj_OwnerReferences obj)"

definition IsZero :: "time option \<Rightarrow> bool" where
  "IsZero t = (case t of None \<Rightarrow> True | Some x \<Rightarrow> x = 0)"

definition DrainingSucceededCondition :: string where
  "DrainingSucceededCondition = ''DrainingSucceeded''"

definition DrainingFailedReason :: string where
  "DrainingFailedReason = ''DrainingFailed''"

definition run :: "extern \<Rightarrow> handler \<Rightarrow> Object \<Rightarrow> bool \<Rightarrow> result" where
  "run X h obj create =
     (if create \<and> obj_DeletionTimestamp obj \<noteq> None then ((Some obj, None), [])
      else
        (case data_Convert obj of
           Inl err \<Rightarrow> ((None, Some err), [])
         | Inr d0 \<Rightarrow>
             (let driver = getNodeDriverName X (obj_GVK obj);
                  (args, filesSecret, ferr) = constructFilesSecret X driver (obj_spec d0);
                  d = d0\<lparr>obj_spec := args\<rparr>
              in case ferr of
                   Some err \<Rightarrow> ((Some obj, Some err), [])
                 | None \<Rightarrow>
                     (case getArgsEnvAndStatus h obj d args driver create of
                        Inl err \<Rightarrow> ((Some obj, Some err), [])
                      | Inr dArgs \<Rightarrow>
                          if BootstrapSecretName dArgs = [] \<and> \<not> BootstrapOptional dArgs
                          then ((Some obj,
                                 dynamic_EnqueueAfter h (obj_GVK obj) (obj_Namespace obj) (obj_Name obj) 2),
                                [EnqueueAfterCall (obj_GVK obj) (obj_Namespace obj) (obj_Name obj) 2])
                          else
                            (case objects h (map_String X args ''providerID'' \<noteq> [] \<and> create)
                                    obj dArgs filesSecret of
                               Inl err \<Rightarrow> ((None, Some err), [])
                             | Inr objs \<Rightarrow>
                                 (let applied = ApplyObjectsCall (Some obj) (\<not> create) objs
                                  in case apply_ApplyObjects h (Some obj) (\<not> create) objs of
                                       Some err \<Rightarrow> ((None, Some err), [applied])
                                     | None \<Rightarrow>
                                         if create
                                         then (let (res, log) =
                                                 patchStatus X h obj d (dargs_RKEMachineStatus dArgs)
                                               in (res, applied # log))
                                         else ((Some obj, None), [applied])))))))"

text \<open>
  The deletion-job step of \<open>doRemove\<close>: it runs the delete action (which constructs and
  applies the job), fetches the job and, when the job has completed, applies the empty
  set of objects under the owner returned by \<open>run\<close>.
\<close>

definition doRemove_job :: "extern \<Rightarrow> handler \<Rightarrow> Object \<Rightarrow> Object \<Rightarrow> string \<Rightarrow> result" where
  "doRemove_job X h obj d infraName =
     (case run X h obj False of
        ((obj1, Some err), log1) \<Rightarrow> ((None, Some err), log1)
      | ((obj1, None), log1) \<Rightarrow>
          (case jobs_Get h (obj_Namespace d) (getJobName X infraName) of
             Inl err \<Rightarrow> ((None, Some err), log1)
           | Inr job \<Rightarrow>
               if CompletionTime job \<noteq> None
               then
                 (let cleanup = ApplyObjectsCall obj1 False []
                  in case apply_ApplyObjects h obj1 False [] of
                       Some err \<Rightarrow> ((None, Some err), log1 @ [cleanup])
                     | None \<Rightarrow> ((obj1, None), log1 @ [cleanup]))
               else ((None, Some ErrSkip), log1)))"

definition doRemove :: "extern \<Rightarrow> handler \<Rightarrow> Object \<Rightarrow> result" where
  "doRemove X h obj =
     (case data_Convert obj of
        Inl err \<Rightarrow> ((None, Some err), [])
      | Inr d \<Rightarrow>
          (let infraName = obj_Name d
           in if \<not> status_Bool X d ''jobComplete'' \<and> status_String X d ''failureReason'' = []
              then ((Some obj,
                     Some (Failure (''cannot delete machine '' @ infraName @
                                    '' because create job has not finished''))), [])
              else
                (case getMachine h obj of
                   Inl err \<Rightarrow>
                     (if \<not> IsNotFound err then ((None, Some err), [])
                      else doRemove_job X h obj d infraName)
                 | Inr None \<Rightarrow> doRemove_job X h obj d infraName
                 | Inr (Some machine) \<Rightarrow>
                     if Cond_IsFalse DrainingSucceededCondition (machine_Conditions machine) \<and>
                        Cond_GetReason DrainingSucceededCondition (machine_Conditions machine)
                          \<noteq> DrainingFailedReason
                     then
                       (let enq = EnqueueAfterCall (InfrastructureRef machine) (obj_Namespace d) infraName 5
                        in case dynamic_EnqueueAfter h (InfrastructureRef machine) (obj_Namespace d) infraName 5 of
                             Some err \<Rightarrow> ((None, Some err), [enq])
                           | None \<Rightarrow> ((Some obj, Some ErrSkip), [enq]))
                     else doRemove_job X h obj d infraName)))"

text \<open>
  \<open>OnRemove\<close>. The entry guard returns the object with the error of the namespace
  lookup, or with no error when the namespace is being removed. For an etcd machine
  the removal waits until the node has been safely removed from the cluster; the
  result of the \<open>EnqueueAfter\<close> call made there is dropped by the source.
\<close>

definition OnRemove :: "extern \<Rightarrow> handler \<Rightarrow> string \<Rightarrow> Object \<Rightarrow> result" where
  "OnRemove X h key obj =
     (case namespaceIsRemoved h obj of
        (removed, err) \<Rightarrow>
          if err \<noteq> None \<or> removed then ((Some obj, err), [])
          else
            (case data_Convert obj of
               Inl err \<Rightarrow> ((None, Some err), [])
             | Inr d \<Rightarrow>
                 if map_of (obj_Labels d) ''rke.cattle.io/etcd-role'' = Some ''true''
                 then
                   (let clusterName =
                          (case map_of (obj_Labels d) (CapiMachineLabel X) of
                             None \<Rightarrow> [] | Some n \<Rightarrow> n)
                    in if clusterName = []
                       then ((Some obj,
                              Some (Failure
                                (''error retrieving the clustername for etcd node, label key '' @
                                 CapiMachineLabel X @
                                 '' does not appear to exist for dynamic machine '' @ key))), [])
                       else
                         (case rancherClusterCache_Get h (obj_Namespace d) clusterName of
                            Inl err \<Rightarrow>
                              (if \<not> IsNotFound err then ((Some obj, Some err), [])
                               else doRemove X h obj)
                          | Inr cluster \<Rightarrow>
                              if \<not> IsZero (cluster_DeletionTimestamp cluster) then doRemove X h obj
                              else
                                (case getMachine h obj of
                                   Inl err \<Rightarrow> ((Some obj, Some err), [])
                                 | Inr machine \<Rightarrow>
                                     (case (case machine of None \<Rightarrow> None | Some m \<Rightarrow> NodeRef m) of
                                        None \<Rightarrow> doRemove X h obj
                                      | Some nodeName \<Rightarrow>
                                          (case GetRESTConfig h cluster of
                                             Inl err \<Rightarrow> ((Some obj, Some err), [])
                                           | Inr restConfig \<Rightarrow>
                                               (case SafelyRemoved h restConfig
                                                       (GetRuntimeCommand X (KubernetesVersion cluster))
                                                       nodeName of
                                                  Inl err \<Rightarrow> ((Some obj, Some err), [])
                                                | Inr safelyRemoved \<Rightarrow>
                                                    if \<not> safelyRemoved
                                                    then ((Some obj, Some ErrSkip),
                                                          [EnqueueAfterCall (obj_GVK obj)
                                                             (obj_Namespace d) (obj_Name d) 5])
                                                    else doRemove X h obj))))))
                 else doRemove X h obj))"

text \<open>The deletion-job step is reached when the log holds an apply call.\<close>

definition is_ApplyObjectsCall :: "effect \<Rightarrow> bool" where
  "is_ApplyObjectsCall e = (case e of ApplyObjectsCall owner ignorePrevious objs \<Rightarrow> True | _ \<Rightarrow> False)"

definition reaches_deletion_job :: "effect list \<Rightarrow> bool" where
  "reaches_deletion_job effects = list_ex is_ApplyObjectsCall effects"

section \<open>Concrete inputs\<close>

text \<open>
  An instance of the parameters, used to run the model. \<open>ex_ToString\<close> and
  \<open>ex_ToBool\<close> agree with wrangler's \<open>convert\<close> package on \<open>nil\<close>, booleans and strings
  without surrounding white space, the values the inputs below hold; \<open>ex_TrimSpace\<close>
  trims ASCII white space; \<open>ex_Join\<close> joins two clean path elements.
\<close>

fun ex_ToString :: "jvalue \<Rightarrow> string" where
  "ex_ToString JNull = []"
| "ex_ToString (JBool b) = (if b then ''true'' else ''false'')"
| "ex_ToString (JString s) = s"
| "ex_ToString (JNumber n) = []"
| "ex_ToString (JList xs) = []"
| "ex_ToString (JMap m) = []"

definition ex_ToBool :: "jvalue \<Rightarrow> bool" where
  "ex_ToBool v = (v = JBool True \<or> v = JString ''true'')"

definition ex_space :: "char \<Rightarrow> bool" where
  "ex_space c = (c = CHR '' '' \<or> c = CHR 0x09 \<or> c = CHR 0x0A \<or> c = CHR 0x0B \<or> c = CHR 0x0C \<or> c = CHR 0x0D)"

definition ex_TrimSpace :: "string \<Rightarrow> string" where
  "ex_TrimSpace s = rev (dropWhile ex_space (rev (dropWhile ex_space s)))"

definition ex_Join :: "string \<Rightarrow> string \<Rightarrow> string" where
  "ex_Join dir file = dir @ ''/'' @ file"

definition ex_selector :: "LabelSelector option \<Rightarrow> error + Selector" where
  "ex_selector ls =
     (case ls of
        None \<Rightarrow> Inr []
      | Some l \<Rightarrow> Inr (map (\<lambda>(k, v). (k, ''='', [v])) (MatchLabels l)))"

definition X0 :: extern where
  "X0 = \<lparr>ToString = ex_ToString, ToBool = ex_ToBool, TrimSpace = ex_TrimSpace,
         path_Join = ex_Join, LabelSelectorAsSelector = ex_selector,
         SchemaToDriverFields =
           (\<lambda>driver. if driver = ''amazonec2''
                     then Some [(''sshKeyContents'', ''sshKeypath''), (''userdata'', ''userdata'')]
                     else None),
         SSHKeyFields = (\<lambda>f. f = ''sshKeyContents'' \<or> f = ''sshKey'' \<or> f = ''privateKeyFile''),
         pathToMachineFiles = ''/path/to/machine/files'',
         CapiMachineLabel = ''cluster.x-k8s.io/cluster-name'',
         getNodeDriverName = (\<lambda>gvk. ''amazonec2''),
         getJobName = (\<lambda>name. name @ ''-machine-provision''),
         GetRuntimeCommand = (\<lambda>version. ''rke2''),
         more_conditions = (\<lambda>d. [])\<rparr>"

text \<open>A pod whose first container is still running while its second one has failed.\<close>

definition pod_sidecar :: Pod where
  "pod_sidecar =
     \<lparr>pod_Name = ''job-1-abcde'', CreationTimestamp = 200, Phase = ''Failed'',
      ContainerStatuses =
        [\<lparr>Terminated = None\<rparr>,
         \<lparr>Terminated = Some \<lparr>ExitCode = 7, Message = '' boom ''\<rparr>\<rparr>]\<rparr>"

definition pod_failed :: Pod where
  "pod_failed =
     \<lparr>pod_Name = ''job-1-fghij'', CreationTimestamp = 100, Phase = ''Failed'',
      ContainerStatuses = [\<lparr>Terminated = Some \<lparr>ExitCode = 1, Message = ''early''\<rparr>\<rparr>]\<rparr>"

definition job_failed :: Job where
  "job_failed =
     \<lparr>job_Name = ''job-1'', job_Namespace = ''fleet-default'', CompletionTime = None,
      job_Conditions =
        [\<lparr>cond_Type = ''Failed'', cond_Status = ''True'',
          cond_Reason = ''BackoffLimitExceeded'', cond_Message = []\<rparr>],
      job_Selector = Some \<lparr>MatchLabels = [(''job-name'', ''job-1'')], MatchExpressions = []\<rparr>\<rparr>"

definition job_done :: Job where
  "job_done = job_failed\<lparr>CompletionTime := Some 300\<rparr>"

definition machine_1 :: Machine where
  "machine_1 =
     \<lparr>NodeRef = Some ''node-1'', machine_Conditions = [],
      InfrastructureRef = \<lparr>Group = ''rke-machine.cattle.io'', Version = ''v1'', Kind = ''Amazonec2Machine''\<rparr>\<rparr>"

definition cluster_1 :: Cluster where
  "cluster_1 = \<lparr>cluster_Name = ''c1'', cluster_DeletionTimestamp = None, KubernetesVersion = ''v1.21.4+rke2r1''\<rparr>"

text \<open>
  A handler: the namespace \<open>fleet-default\<close> is live and the namespace \<open>doomed\<close> is being
  deleted; the node of \<open>machine-1\<close> is not yet safely removed; every call that changes
  the world succeeds, and a status update returns the object it was given.
\<close>

definition h0 :: handler where
  "h0 =
     \<lparr>jobs_Get = (\<lambda>ns name. Inr job_done),
      pods_List = (\<lambda>ns sel. Inr [pod_failed, pod_sidecar]),
      machines_Get = (\<lambda>ns name. if name = ''machine-1'' then Inr machine_1
                                  else Inl (NotFound ''machine not found'')),
      namespaces_Get = (\<lambda>ns. if ns = ''fleet-default'' then Inr \<lparr>ns_DeletionTimestamp = None\<rparr>
                              else if ns = ''doomed'' then Inr \<lparr>ns_DeletionTimestamp = Some 1000\<rparr>
                              else Inl (NotFound ''namespace not found'')),
      rancherClusterCache_Get = (\<lambda>ns name. if name = ''c1'' then Inr cluster_1
                                             else Inl (NotFound ''cluster not found'')),
      GetRESTConfig = (\<lambda>cluster. Inr ''rest-config''),
      SafelyRemoved = (\<lambda>restConfig command node. Inr False),
      dynamic_EnqueueAfter = (\<lambda>gvk ns name delay. None),
      dynamic_UpdateStatus = (\<lambda>obj. (Some obj, None)),
      apply_ApplyObjects = (\<lambda>owner ignorePrevious objs. None),
      getArgsEnvAndStatus =
        (\<lambda>obj d args driver create.
           Inr \<lparr>BootstrapSecretName = ''bootstrap'', BootstrapOptional = False,
                dargs_RKEMachineStatus = RKEMachineStatus_zero, dargs_Args = []\<rparr>),
      objects = (\<lambda>ready obj dArgs filesSecret. Inr [(''Job'', ''m1-machine-provision'')])\<rparr>"

definition h_no_pods :: handler where
  "h_no_pods = h0\<lparr>pods_List := (\<lambda>ns sel. Inr [])\<rparr>"

text \<open>
  An etcd machine of cluster \<open>c1\<close>, owned by \<open>machine-1\<close>, whose create job has
  completed; the same machine in the namespace that is being deleted; a machine that
  is no etcd member, in that namespace; and a machine whose create job is pending.
\<close>

definition etcd_obj :: Object where
  "etcd_obj =
     \<lparr>obj_GVK = \<lparr>Group = ''rke-machine.cattle.io'', Version = ''v1'', Kind = ''Amazonec2Machine''\<rparr>,
      obj_Namespace = ''fleet-default'', obj_Name = ''m1'',
      obj_Labels = [(''rke.cattle.io/etcd-role'', ''true''),
                    (''cluster.x-k8s.io/cluster-name'', ''c1'')],
      obj_OwnerReferences = [\<lparr>owner_Kind = ''Machine'', owner_Name = ''machine-1''\<rparr>],
      obj_DeletionTimestamp = Some 900,
      obj_spec = [(''region'', JString ''us-east-1'')],
      obj_status = Some [(''jobComplete'', JBool True), (''jobName'', JString ''m1-machine-provision'')]\<rparr>"

definition etcd_obj_doomed :: Object where
  "etcd_obj_doomed = etcd_obj\<lparr>obj_Namespace := ''doomed''\<rparr>"

definition worker_obj_doomed :: Object where
  "worker_obj_doomed = etcd_obj\<lparr>obj_Namespace := ''doomed'', obj_Labels := []\<rparr>"

definition pending_obj :: Object where
  "pending_obj = etcd_obj\<lparr>obj_Labels := [], obj_status := Some [(''jobName'', JString ''m1-machine-provision'')]\<rparr>"

text \<open>
  A machine whose stored status still carries the failure of an earlier attempt, the
  status of a cleanly completed job, and the machine after the failure is cleared.
\<close>

definition stale_obj :: Object where
  "stale_obj = etcd_obj\<lparr>obj_status :=
     Some [(''failureReason'', JString ''CreateError''), (''failureMessage'', JString ''boom''),
           (''jobName'', JString ''m1-machine-provision'')]\<rparr>"

definition status_complete :: RKEMachineStatus where
  "status_complete =
     \<lparr>JobComplete = True, JobName = ''m1-machine-provision'',
      FailureReason = [], FailureMessage = []\<rparr>"

definition cleared_obj :: Object where
  "cleared_obj = etcd_obj\<lparr>obj_status :=
     Some [(''failureReason'', JString []), (''failureMessage'', JString []),
           (''jobName'', JString ''m1-machine-provision''), (''jobComplete'', JBool True)]\<rparr>"



text \<open>
  Two spec maps for the driver \<open>amazonec2\<close>: one with an SSH key that lacks the final
  newline and an empty user-data field, one with user data that ends with two newlines.
\<close>

definition config_key :: jmap where
  "config_key =
     [(''region'', JString ''us-east-1''), (''sshKeyContents'', JString ''KEY''),
      (''userdata'', JString [])]"

definition config_userdata :: jmap where
  "config_userdata = [(''userdata'', JString (''#!/bin/sh'' @ [newline, newline]))]"

text \<open>
  The same parameters with a \<open>ToString\<close> that trims white space from a string, as
  \<open>convert.ToString\<close> does; a machine whose stored failure fields hold white space
  only; and the machine \<open>etcd_obj\<close> after one and after two writes of a condition whose
  type is padded with spaces.
\<close>

fun trim_ToString :: "jvalue \<Rightarrow> string" where
  "trim_ToString JNull = []"
| "trim_ToString (JBool b) = (if b then ''true'' else ''false'')"
| "trim_ToString (JString s) = ex_TrimSpace s"
| "trim_ToString (JNumber n) = []"
| "trim_ToString (JList xs) = []"
| "trim_ToString (JMap m) = []"

definition X_trim :: extern where
  "X_trim = X0\<lparr>ToString := trim_ToString\<rparr>"

definition blank_obj :: Object where
  "blank_obj = etcd_obj\<lparr>obj_status :=
     Some [(''failureReason'', JString ''  ''), (''failureMessage'', JString '' ''),
           (''jobName'', JString ''m1-machine-provision''), (''jobComplete'', JBool True)]\<rparr>"



section \<open>Properties of the job-status translator\<close>

lemma container_loop_first_terminated:
  assumes "ContainerStatuses pod = cs0 # rest" and "Terminated cs0 = Some t0"
  shows "list_ex failed_container css \<Longrightarrow>
     container_loop X pod create css =
       Inr \<lparr>JobComplete = False, JobName = [],
            FailureReason = (if create then CreateMachineError else DeleteMachineError),
            FailureMessage = TrimSpace X (Message t0)\<rparr>"
  by (induction css)
    (auto simp: assms failed_container_def first_terminated_message_def
      RKEMachineStatus_zero_def split: option.splits)

lemma container_loop_first_not_terminated:
  assumes "ContainerStatuses pod = cs0 # rest" and "Terminated cs0 = None"
  shows "list_ex failed_container css \<Longrightarrow>
     container_loop X pod create css = Inl (Panic ''nil pointer dereference'')"
  by (induction css)
    (auto simp: assms failed_container_def first_terminated_message_def split: option.splits)

lemma container_loop_no_failure:
  "\<not> list_ex failed_container css \<Longrightarrow> container_loop X pod create css = Inr RKEMachineStatus_zero"
  by (induction css) (auto simp: failed_container_def split: option.splits)

text \<open>
  What the translator returns for a failed pod whose first container status has a
  terminated state: the reason follows the create flag and the message is the trimmed
  message of the first container status, whichever container failed.
\<close>

lemma getMachineStatusFromPod_first_terminated:
  assumes "Phase pod \<noteq> PodSucceeded"
    and "list_ex failed_container (ContainerStatuses pod)"
    and "ContainerStatuses pod = cs0 # rest" and "Terminated cs0 = Some t0"
  shows "getMachineStatusFromPod X pod create =
       Inr \<lparr>JobComplete = False, JobName = [],
            FailureReason = (if create then CreateMachineError else DeleteMachineError),
            FailureMessage = TrimSpace X (Message t0)\<rparr>"
  using assms(1) container_loop_first_terminated [OF assms(3,4) assms(2)]
  by (simp add: getMachineStatusFromPod_def)

text \<open>
  The same pod with a first container status that has no terminated state: reading
  \<open>ContainerStatuses[0].State.Terminated.Message\<close> dereferences a nil pointer.
\<close>

lemma getMachineStatusFromPod_first_not_terminated:
  assumes "Phase pod \<noteq> PodSucceeded"
    and "list_ex failed_container (ContainerStatuses pod)"
    and "ContainerStatuses pod = cs0 # rest" and "Terminated cs0 = None"
  shows "getMachineStatusFromPod X pod create = Inl (Panic ''nil pointer dereference'')"
  using assms(1) container_loop_first_not_terminated [OF assms(3,4) assms(2)]
  by (simp add: getMachineStatusFromPod_def)

text \<open>
  Claim C4, at a failing input. The job has no completion time and its Failed
  condition is true; its most recently created pod has not succeeded and its second
  container terminated with exit code 7, while its first container is still running.
  The claim promises a summary with a failure reason and the message of the first
  container status; the translator panics instead.
\<close>

theorem getMachineStatus_panics_when_first_container_running:
  "CompletionTime job_failed = None \<and>
   Cond_IsTrue ''Failed'' (job_Conditions job_failed) \<and>
   lastPod_loop None [pod_failed, pod_sidecar] = Some pod_sidecar \<and>
   Phase pod_sidecar \<noteq> PodSucceeded \<and>
   list_ex failed_container (ContainerStatuses pod_sidecar) \<and>
   getMachineStatus X0 h0 job_failed True = Inl (Panic ''nil pointer dereference'')"
  by (simp add: getMachineStatus_def getMachineStatusFromPod_def first_terminated_message_def
      failed_container_def Cond_IsTrue_def findCond_def job_failed_def pod_failed_def
      pod_sidecar_def PodSucceeded_def X0_def h0_def ex_selector_def)

text \<open>
  Claim C8. A job with a completion timestamp yields the summary with
  \<open>jobComplete = true\<close> and no failure field, whatever the pods and the conditions of
  the job are: neither is read.
\<close>

theorem getMachineStatus_completed:
  assumes "CompletionTime job \<noteq> None"
  shows "getMachineStatus X h job create =
       Inr \<lparr>JobComplete = True, JobName = [], FailureReason = [], FailureMessage = []\<rparr>"
  using assms by (simp add: getMachineStatus_def RKEMachineStatus_zero_def)

theorem getMachineStatus_completed_witness:
  "CompletionTime job_done \<noteq> None \<and>
   Cond_IsTrue ''Failed'' (job_Conditions job_done) \<and>
   getMachineStatus X0 h0 job_done True =
     Inr \<lparr>JobComplete = True, JobName = [], FailureReason = [], FailureMessage = []\<rparr>"
proof -
  have completed: "CompletionTime job_done \<noteq> None"
    by (simp add: job_done_def)
  have failed: "Cond_IsTrue ''Failed'' (job_Conditions job_done)"
    by (simp add: job_done_def job_failed_def Cond_IsTrue_def findCond_def)
  from completed failed getMachineStatus_completed [OF completed, of X0 h0 True] show ?thesis
    by simp
qed

text \<open>
  Claim C10. A job without completion timestamp whose Failed condition is true and
  whose selector matches no pod yields the empty summary: no pod is left to take a
  failure reason or message from.
\<close>

theorem getMachineStatus_failed_without_pods:
  assumes "CompletionTime job = None"
    and "Cond_IsTrue ''Failed'' (job_Conditions job)"
    and "LabelSelectorAsSelector X (job_Selector job) = Inr sel"
    and "pods_List h (job_Namespace job) sel = Inr []"
  shows "getMachineStatus X h job create =
       Inr \<lparr>JobComplete = False, JobName = [], FailureReason = [], FailureMessage = []\<rparr>"
  using assms by (simp add: getMachineStatus_def RKEMachineStatus_zero_def)

theorem getMachineStatus_failed_without_pods_witness:
  "CompletionTime job_failed = None \<and>
   Cond_IsTrue ''Failed'' (job_Conditions job_failed) \<and>
   LabelSelectorAsSelector X0 (job_Selector job_failed) = Inr [(''job-name'', ''='', [''job-1''])] \<and>
   pods_List h_no_pods (job_Namespace job_failed) [(''job-name'', ''='', [''job-1''])] = Inr [] \<and>
   getMachineStatus X0 h_no_pods job_failed True =
     Inr \<lparr>JobComplete = False, JobName = [], FailureReason = [], FailureMessage = []\<rparr>"
proof -
  have a: "CompletionTime job_failed = None"
    by (simp add: job_failed_def)
  have b: "Cond_IsTrue ''Failed'' (job_Conditions job_failed)"
    by (simp add: job_failed_def Cond_IsTrue_def findCond_def)
  have c: "LabelSelectorAsSelector X0 (job_Selector job_failed) = Inr [(''job-name'', ''='', [''job-1''])]"
    by (simp add: X0_def ex_selector_def job_failed_def)
  have d: "pods_List h_no_pods (job_Namespace job_failed) [(''job-name'', ''='', [''job-1''])] = Inr []"
    by (simp add: h_no_pods_def)
  from a b c d getMachineStatus_failed_without_pods [OF a b c d, of True] show ?thesis
    by simp
qed

section \<open>Properties of the teardown orchestrator\<close>

text \<open>
  Claim C2. When the stored status has neither \<open>jobComplete\<close> nor a
  \<open>failureReason\<close>, \<open>doRemove\<close> returns the object with an error that is not the skip
  sentinel and whose message names the machine and says that the create job has not
  finished. The check comes before the drain gate and before the deletion job: no call
  that changes the world is made, so nothing is deleted.
\<close>

theorem doRemove_create_job_not_finished:
  assumes "\<not> status_Bool X obj ''jobComplete''"
    and "status_String X obj ''failureReason'' = []"
  shows "doRemove X h obj =
     ((Some obj,
       Some (Failure (''cannot delete machine '' @ obj_Name obj @
                      '' because create job has not finished''))), []) \<and>
     \<not> reaches_deletion_job (snd (doRemove X h obj))"
  using assms by (simp add: doRemove_def data_Convert_def reaches_deletion_job_def)

theorem doRemove_create_job_not_finished_witness:
  "\<not> status_Bool X0 pending_obj ''jobComplete'' \<and>
   status_String X0 pending_obj ''failureReason'' = [] \<and>
   doRemove X0 h0 pending_obj =
     ((Some pending_obj,
       Some (Failure ''cannot delete machine m1 because create job has not finished'')), []) \<and>
   \<not> reaches_deletion_job (snd (doRemove X0 h0 pending_obj))"
proof -
  have a: "\<not> status_Bool X0 pending_obj ''jobComplete''"
    by (simp add: status_Bool_def status_value_def pending_obj_def etcd_obj_def X0_def ex_ToBool_def)
  have b: "status_String X0 pending_obj ''failureReason'' = []"
    by (simp add: status_String_def status_value_def pending_obj_def etcd_obj_def X0_def)
  have c: "obj_Name pending_obj = ''m1''"
    by (simp add: pending_obj_def etcd_obj_def)
  from a b doRemove_create_job_not_finished [OF a b, of h0] c show ?thesis
    by (simp add: reaches_deletion_job_def)
qed

text \<open>
  The deletion-job step at a concrete input: for the worker machine, whose create job
  has completed and whose logical machine is not draining, \<open>doRemove\<close> applies the
  delete job and, the job being complete, applies the empty set of objects.
\<close>

lemma doRemove_worker_reaches_deletion_job:
  "doRemove X0 h0 worker_obj_doomed =
     ((Some worker_obj_doomed, None),
      [ApplyObjectsCall (Some worker_obj_doomed) True [(''Job'', ''m1-machine-provision'')],
       ApplyObjectsCall (Some worker_obj_doomed) False []])"
  by (simp add: doRemove_def doRemove_job_def run_def data_Convert_def constructFilesSecret_def
      status_Bool_def status_String_def status_value_def worker_obj_doomed_def etcd_obj_def
      X0_def h0_def ex_ToBool_def getMachine_def IsNotFound_def Cond_IsFalse_def findCond_def
      machine_1_def map_String_def file_step_def job_done_def DrainingSucceededCondition_def
      Let_def)

text \<open>
  Claim C3, as stated, fails. The namespace \<open>doomed\<close> carries a deletion timestamp;
  \<open>OnRemove\<close> returns the machine at once, with no error and an empty log. The deletion
  job is neither constructed nor run, although \<open>doRemove\<close> would have run it.
\<close>

theorem OnRemove_namespace_removed_counterexample:
  "namespaceIsRemoved h0 worker_obj_doomed = (True, None) \<and>
   OnRemove X0 h0 ''doomed/m1'' worker_obj_doomed = ((Some worker_obj_doomed, None), []) \<and>
   \<not> reaches_deletion_job (snd (OnRemove X0 h0 ''doomed/m1'' worker_obj_doomed)) \<and>
   reaches_deletion_job (snd (doRemove X0 h0 worker_obj_doomed))"
  by (simp add: doRemove_worker_reaches_deletion_job reaches_deletion_job_def
      is_ApplyObjectsCall_def)
    (simp add: OnRemove_def namespaceIsRemoved_def h0_def worker_obj_doomed_def etcd_obj_def)

text \<open>
  Claim C3, amended. When the namespace of the machine is found and carries a deletion
  timestamp, the entry guard ends the teardown: \<open>OnRemove\<close> returns the object
  unchanged with no error, the ordering gates are not evaluated, and no deletion job
  is constructed or run and no re-check is scheduled (the log is empty).
\<close>

theorem OnRemove_namespace_removed:
  assumes "namespaces_Get h (obj_Namespace obj) = Inr ns"
    and "ns_DeletionTimestamp ns \<noteq> None"
  shows "OnRemove X h key obj = ((Some obj, None), [])"
  using assms by (simp add: OnRemove_def namespaceIsRemoved_def)

theorem OnRemove_namespace_removed_witness:
  "namespaces_Get h0 (obj_Namespace worker_obj_doomed) = Inr \<lparr>ns_DeletionTimestamp = Some 1000\<rparr> \<and>
   ns_DeletionTimestamp \<lparr>ns_DeletionTimestamp = Some 1000\<rparr> \<noteq> None \<and>
   OnRemove X0 h0 ''doomed/m1'' worker_obj_doomed = ((Some worker_obj_doomed, None), [])"
proof -
  have a: "namespaces_Get h0 (obj_Namespace worker_obj_doomed) = Inr \<lparr>ns_DeletionTimestamp = Some 1000\<rparr>"
    by (simp add: h0_def worker_obj_doomed_def etcd_obj_def)
  have b: "ns_DeletionTimestamp \<lparr>ns_DeletionTimestamp = Some 1000\<rparr> \<noteq> None"
    by simp
  from a b OnRemove_namespace_removed [OF a b, of X0 "''doomed/m1''"] show ?thesis
    by simp
qed

text \<open>
  Claim C1, as stated, fails. The machine \<open>etcd_obj_doomed\<close> carries the etcd-role
  label, its cluster exists and is not being deleted, its logical machine has a node
  reference and the safe-removal check answers "not yet safe" without error; but its
  namespace is being deleted, so \<open>OnRemove\<close> returns it with no error instead of the
  skip sentinel, and no re-check is scheduled.
\<close>

theorem OnRemove_etcd_not_safely_removed_counterexample:
  "map_of (obj_Labels etcd_obj_doomed) ''rke.cattle.io/etcd-role'' = Some ''true'' \<and>
   map_of (obj_Labels etcd_obj_doomed) (CapiMachineLabel X0) = Some ''c1'' \<and>
   rancherClusterCache_Get h0 (obj_Namespace etcd_obj_doomed) ''c1'' = Inr cluster_1 \<and>
   IsZero (cluster_DeletionTimestamp cluster_1) \<and>
   getMachine h0 etcd_obj_doomed = Inr (Some machine_1) \<and>
   NodeRef machine_1 = Some ''node-1'' \<and>
   GetRESTConfig h0 cluster_1 = Inr ''rest-config'' \<and>
   SafelyRemoved h0 ''rest-config'' (GetRuntimeCommand X0 (KubernetesVersion cluster_1)) ''node-1''
     = Inr False \<and>
   OnRemove X0 h0 ''doomed/m1'' etcd_obj_doomed = ((Some etcd_obj_doomed, None), []) \<and>
   OnRemove X0 h0 ''doomed/m1'' etcd_obj_doomed \<noteq>
     ((Some etcd_obj_doomed, Some ErrSkip),
      [EnqueueAfterCall (obj_GVK etcd_obj_doomed) (obj_Namespace etcd_obj_doomed)
         (obj_Name etcd_obj_doomed) 5])"
  by (simp add: OnRemove_def namespaceIsRemoved_def getMachine_def IsZero_def h0_def X0_def
      etcd_obj_doomed_def etcd_obj_def cluster_1_def machine_1_def)

text \<open>
  Claim C1, amended. Let the namespace of the machine be found and not be in deletion.
  If the machine carries the etcd-role label, its cluster is named by the cluster
  label, exists and is not being deleted, its logical machine has a node reference,
  the credentials of the cluster are obtained and the safe-removal check made with
  them answers "not yet safe" without error, then \<open>OnRemove\<close> returns the object
  unchanged with the skip sentinel, after exactly one \<open>EnqueueAfter\<close> call with a delay
  of 5, and the deletion-job step is not reached.
\<close>

theorem OnRemove_etcd_not_safely_removed:
  assumes "namespaces_Get h (obj_Namespace obj) = Inr ns"
    and "ns_DeletionTimestamp ns = None"
    and "map_of (obj_Labels obj) ''rke.cattle.io/etcd-role'' = Some ''true''"
    and "map_of (obj_Labels obj) (CapiMachineLabel X) = Some clusterName"
    and "clusterName \<noteq> []"
    and "rancherClusterCache_Get h (obj_Namespace obj) clusterName = Inr cluster"
    and "IsZero (cluster_DeletionTimestamp cluster)"
    and "getMachine h obj = Inr (Some machine)"
    and "NodeRef machine = Some nodeName"
    and "GetRESTConfig h cluster = Inr restConfig"
    and "SafelyRemoved h restConfig (GetRuntimeCommand X (KubernetesVersion cluster)) nodeName
           = Inr False"
  shows "OnRemove X h key obj =
           ((Some obj, Some ErrSkip),
            [EnqueueAfterCall (obj_GVK obj) (obj_Namespace obj) (obj_Name obj) 5]) \<and>
         \<not> reaches_deletion_job (snd (OnRemove X h key obj))"
  using assms
  by (simp add: OnRemove_def namespaceIsRemoved_def data_Convert_def
      reaches_deletion_job_def is_ApplyObjectsCall_def)

theorem OnRemove_etcd_not_safely_removed_witness:
  "namespaces_Get h0 (obj_Namespace etcd_obj) = Inr \<lparr>ns_DeletionTimestamp = None\<rparr> \<and>
   map_of (obj_Labels etcd_obj) ''rke.cattle.io/etcd-role'' = Some ''true'' \<and>
   map_of (obj_Labels etcd_obj) (CapiMachineLabel X0) = Some ''c1'' \<and>
   rancherClusterCache_Get h0 (obj_Namespace etcd_obj) ''c1'' = Inr cluster_1 \<and>
   IsZero (cluster_DeletionTimestamp cluster_1) \<and>
   getMachine h0 etcd_obj = Inr (Some machine_1) \<and>
   NodeRef machine_1 = Some ''node-1'' \<and>
   GetRESTConfig h0 cluster_1 = Inr ''rest-config'' \<and>
   SafelyRemoved h0 ''rest-config'' (GetRuntimeCommand X0 (KubernetesVersion cluster_1)) ''node-1''
     = Inr False \<and>
   OnRemove X0 h0 ''fleet-default/m1'' etcd_obj =
     ((Some etcd_obj, Some ErrSkip),
      [EnqueueAfterCall
         \<lparr>Group = ''rke-machine.cattle.io'', Version = ''v1'', Kind = ''Amazonec2Machine''\<rparr>
         ''fleet-default'' ''m1'' 5]) \<and>
   \<not> reaches_deletion_job (snd (OnRemove X0 h0 ''fleet-default/m1'' etcd_obj))"
proof -
  have a1: "namespaces_Get h0 (obj_Namespace etcd_obj) = Inr \<lparr>ns_DeletionTimestamp = None\<rparr>"
    by (simp add: h0_def etcd_obj_def)
  have a2: "ns_DeletionTimestamp \<lparr>ns_DeletionTimestamp = None\<rparr> = None"
    by simp
  have a3: "map_of (obj_Labels etcd_obj) ''rke.cattle.io/etcd-role'' = Some ''true''"
    by (simp add: etcd_obj_def)
  have a4: "map_of (obj_Labels etcd_obj) (CapiMachineLabel X0) = Some ''c1''"
    by (simp add: etcd_obj_def X0_def)
  have a5: "''c1'' \<noteq> []"
    by simp
  have a6: "rancherClusterCache_Get h0 (obj_Namespace etcd_obj) ''c1'' = Inr cluster_1"
    by (simp add: h0_def)
  have a7: "IsZero (cluster_DeletionTimestamp cluster_1)"
    by (simp add: IsZero_def cluster_1_def)
  have a8: "getMachine h0 etcd_obj = Inr (Some machine_1)"
    by (simp add: getMachine_def h0_def etcd_obj_def)
  have a9: "NodeRef machine_1 = Some ''node-1''"
    by (simp add: machine_1_def)
  have a10: "GetRESTConfig h0 cluster_1 = Inr ''rest-config''"
    by (simp add: h0_def)
  have a11: "SafelyRemoved h0 ''rest-config'' (GetRuntimeCommand X0 (KubernetesVersion cluster_1))
               ''node-1'' = Inr False"
    by (simp add: h0_def)
  have names: "obj_GVK etcd_obj =
        \<lparr>Group = ''rke-machine.cattle.io'', Version = ''v1'', Kind = ''Amazonec2Machine''\<rparr> \<and>
      obj_Namespace etcd_obj = ''fleet-default'' \<and> obj_Name etcd_obj = ''m1''"
    by (simp add: etcd_obj_def)
  from OnRemove_etcd_not_safely_removed [OF a1 a2 a3 a4 a5 a6 a7 a8 a9 a10 a11, of "''fleet-default/m1''"]
    a1 a3 a4 a6 a7 a8 a9 a10 a11 names
  show ?thesis by (simp add: reaches_deletion_job_def is_ApplyObjectsCall_def)
qed

section \<open>Properties of the status patcher\<close>

lemma merge_status_other:
  "k \<notin> fst ` set sd \<Longrightarrow> map_of (merge_status st sd) k = map_of st k"
  unfolding merge_status_def
  by (induction sd arbitrary: st) (auto simp: update_conv')

lemma merge_status_lookup:
  "distinct (map fst sd) \<Longrightarrow> (k, v) \<in> set sd \<Longrightarrow> map_of (merge_status st sd) k = Some v"
proof (induction sd arbitrary: st)
  case Nil
  then show ?case by simp
next
  case (Cons a sd)
  show ?case
  proof (cases "(k, v) = a")
    case True
    with Cons.prems have "k \<notin> fst ` set sd" by (auto simp: image_iff)
    then have "map_of (merge_status (AList.update k v st) sd) k = map_of (AList.update k v st) k"
      by (rule merge_status_other)
    with True show ?thesis by (auto simp: merge_status_def update_conv')
  next
    case False
    with Cons.prems have "(k, v) \<in> set sd" "distinct (map fst sd)" by auto
    then have "map_of (merge_status (AList.update (fst a) (snd a) st) sd) k = Some v"
      using Cons.IH by blast
    then show ?thesis by (simp add: merge_status_def case_prod_beta)
  qed
qed

lemma distinct_reset_failure:
  "distinct (map fst sd) \<Longrightarrow> distinct (map fst (reset_failure sd))"
  by (simp add: reset_failure_def Let_def distinct_update)

lemma distinct_statusData_of: "distinct (map fst (statusData_of state))"
  by (auto simp: statusData_of_def EncodeToMap_def desired_statusData_def
      intro!: distinct_reset_failure)

text \<open>\<open>patchStatus\<close> in two cases: nothing changed, or one status update of the merged status.\<close>

lemma patchStatus_cases:
  "patchStatus X h obj d state =
     (if \<not> status_changed X d (statusData_of state) then ((Some obj, None), [])
      else (dynamic_UpdateStatus h
              (obj\<lparr>obj_status := Some (merge_status (case obj_status obj of None \<Rightarrow> [] | Some st \<Rightarrow> st)
                                        (statusData_of state))\<rparr>),
            [UpdateStatusCall
              (obj\<lparr>obj_status := Some (merge_status (case obj_status obj of None \<Rightarrow> [] | Some st \<Rightarrow> st)
                                        (statusData_of state))\<rparr>)]))"
  by (simp add: patchStatus_def statusData_of_def EncodeToMap_def data_Convert_def Let_def)

lemma status_changed_iff:
  "status_changed X d sd \<longleftrightarrow> (\<exists>(k, v)\<in>set sd. status_String X d k \<noteq> ToString X v)"
  by (auto simp: status_changed_def list_ex_iff)

lemma statusData_of_complete:
  assumes "JobComplete state" "FailureReason state = []" "FailureMessage state = []"
  shows "map_of (statusData_of state) ''failureReason'' = Some (JString []) \<and>
         map_of (statusData_of state) ''failureMessage'' = Some (JString [])"
  using assms
  by (simp add: statusData_of_def EncodeToMap_def desired_statusData_def reset_failure_def
      Let_def update_conv')

text \<open>
  With \<open>jobComplete = true\<close> and no failure reason and message in the desired status,
  \<open>patchStatus\<close> either writes nothing, the stored failure reason and message reading
  as the empty string does, or makes one status update with the empty string for both.
\<close>

lemma patchStatus_complete_cases:
  assumes "JobComplete state" and "FailureReason state = []" and "FailureMessage state = []"
  shows "(patchStatus X h obj d state = ((Some obj, None), []) \<and>
          status_String X d ''failureReason'' = ToString X (JString []) \<and>
          status_String X d ''failureMessage'' = ToString X (JString [])) \<or>
         (\<exists>d'. patchStatus X h obj d state = (dynamic_UpdateStatus h d', [UpdateStatusCall d']) \<and>
               status_value d' ''failureReason'' = JString [] \<and>
               status_value d' ''failureMessage'' = JString [])"
proof (cases "status_changed X d (statusData_of state)")
  case False
  from statusData_of_complete [OF assms]
  have "(''failureReason'', JString []) \<in> set (statusData_of state)"
    and "(''failureMessage'', JString []) \<in> set (statusData_of state)"
    by (auto dest: map_of_SomeD)
  with False have "status_String X d ''failureReason'' = ToString X (JString [])"
    and "status_String X d ''failureMessage'' = ToString X (JString [])"
    by (auto simp: status_changed_iff)
  with False show ?thesis by (simp add: patchStatus_cases)
next
  case True
  let ?st = "merge_status (case obj_status obj of None \<Rightarrow> [] | Some st \<Rightarrow> st) (statusData_of state)"
  from statusData_of_complete [OF assms]
  have "(''failureReason'', JString []) \<in> set (statusData_of state)"
    and "(''failureMessage'', JString []) \<in> set (statusData_of state)"
    by (auto dest: map_of_SomeD)
  then have "map_of ?st ''failureReason'' = Some (JString [])"
    and "map_of ?st ''failureMessage'' = Some (JString [])"
    by (auto intro: merge_status_lookup [OF distinct_statusData_of])
  then have "status_value (obj\<lparr>obj_status := Some ?st\<rparr>) ''failureReason'' = JString []"
    and "status_value (obj\<lparr>obj_status := Some ?st\<rparr>) ''failureMessage'' = JString []"
    by (simp_all add: status_value_def)
  with True show ?thesis by (auto simp: patchStatus_cases)
qed

lemma patchStatus_stale_obj:
  "patchStatus X0 h0 stale_obj stale_obj status_complete =
     ((Some cleared_obj, None), [UpdateStatusCall cleared_obj])"
  by code_simp

text \<open>
  Claim C5, as stated, fails. The stored failure reason and message of \<open>blank_obj\<close> are
  not empty: they hold white space. Their string forms are trimmed and so equal that
  of the empty string; no field differs, and \<open>patchStatus\<close> returns without a write.
  The stored values stay as they are.
\<close>

theorem patchStatus_blank_failure_counterexample:
  "JobComplete status_complete \<and> FailureReason status_complete = [] \<and>
   FailureMessage status_complete = [] \<and>
   status_value blank_obj ''failureReason'' = JString ''  '' \<and>
   status_value blank_obj ''failureMessage'' = JString '' '' \<and>
   patchStatus X_trim h0 blank_obj blank_obj status_complete = ((Some blank_obj, None), [])"
  by code_simp

text \<open>
  Claim C5, amended. Let the desired status have \<open>jobComplete = true\<close> and no failure
  reason and message. Whenever the string form of the stored failure reason or of the
  stored failure message differs from the string form of the empty string,
  \<open>patchStatus\<close> makes one status update, with an object whose status holds the empty
  string for both. In every case it either makes such an update or makes none, and
  then both stored values already read as the empty string does.
\<close>

theorem patchStatus_resets_failure:
  assumes "JobComplete state" and "FailureReason state = []" and "FailureMessage state = []"
  shows "(status_String X d ''failureReason'' \<noteq> ToString X (JString []) \<or>
          status_String X d ''failureMessage'' \<noteq> ToString X (JString []) \<longrightarrow>
            (\<exists>d'. patchStatus X h obj d state = (dynamic_UpdateStatus h d', [UpdateStatusCall d']) \<and>
                  status_value d' ''failureReason'' = JString [] \<and>
                  status_value d' ''failureMessage'' = JString [])) \<and>
         ((patchStatus X h obj d state = ((Some obj, None), []) \<and>
           status_String X d ''failureReason'' = ToString X (JString []) \<and>
           status_String X d ''failureMessage'' = ToString X (JString [])) \<or>
          (\<exists>d'. patchStatus X h obj d state = (dynamic_UpdateStatus h d', [UpdateStatusCall d']) \<and>
                status_value d' ''failureReason'' = JString [] \<and>
                status_value d' ''failureMessage'' = JString []))"
  using patchStatus_complete_cases [OF assms, of X h obj d] by blast

theorem patchStatus_resets_failure_witness:
  "JobComplete status_complete \<and> FailureReason status_complete = [] \<and>
   FailureMessage status_complete = [] \<and>
   status_String X0 stale_obj ''failureReason'' = ''CreateError'' \<and>
   ToString X0 (JString []) = [] \<and>
   patchStatus X0 h0 stale_obj stale_obj status_complete =
     ((Some cleared_obj, None), [UpdateStatusCall cleared_obj]) \<and>
   (\<exists>d'. patchStatus X0 h0 stale_obj stale_obj status_complete =
            (dynamic_UpdateStatus h0 d', [UpdateStatusCall d']) \<and>
         status_value d' ''failureReason'' = JString [] \<and>
         status_value d' ''failureMessage'' = JString [])"
proof -
  have a: "JobComplete status_complete" and b: "FailureReason status_complete = []"
    and c: "FailureMessage status_complete = []"
    by (simp_all add: status_complete_def)
  have stored: "status_String X0 stale_obj ''failureReason'' = ''CreateError''"
    by (simp add: status_String_def status_value_def stale_obj_def X0_def)
  have empty: "ToString X0 (JString []) = []"
    by (simp add: X0_def)
  from stored empty
  have differs: "status_String X0 stale_obj ''failureReason'' \<noteq> ToString X0 (JString []) \<or>
      status_String X0 stale_obj ''failureMessage'' \<noteq> ToString X0 (JString [])"
    by simp
  from patchStatus_resets_failure [OF a b c, where X = X0 and h = h0 and obj = stale_obj
      and d = stale_obj]
  have "status_String X0 stale_obj ''failureReason'' \<noteq> ToString X0 (JString []) \<or>
      status_String X0 stale_obj ''failureMessage'' \<noteq> ToString X0 (JString []) \<longrightarrow>
      (\<exists>d'. patchStatus X0 h0 stale_obj stale_obj status_complete =
            (dynamic_UpdateStatus h0 d', [UpdateStatusCall d']) \<and>
         status_value d' ''failureReason'' = JString [] \<and>
         status_value d' ''failureMessage'' = JString [])"
    by (rule conjunct1)
  from this differs
  have "\<exists>d'. patchStatus X0 h0 stale_obj stale_obj status_complete =
            (dynamic_UpdateStatus h0 d', [UpdateStatusCall d']) \<and>
         status_value d' ''failureReason'' = JString [] \<and>
         status_value d' ''failureMessage'' = JString []"
    by (rule mp)
  with a b c stored empty patchStatus_stale_obj show ?thesis
    by (intro conjI)
qed

lemma patchStatus_unchanged:
  assumes "\<forall>(k, v)\<in>set (statusData_of state). status_String X d k = ToString X v"
  shows "patchStatus X h obj d state = ((Some obj, None), [])"
  using assms by (auto simp: patchStatus_cases status_changed_iff)

lemma status_changed_cong:
  "obj_status d = obj_status d' \<Longrightarrow> status_changed X d sd = status_changed X d' sd"
  by (simp add: status_changed_def status_String_def status_value_def)

lemma patchStatus_second_call:
  assumes d: "obj_status d = obj_status obj"
    and first: "patchStatus X h obj d state = ((Some obj', None), effects)"
    and stored: "\<forall>u. effects = [UpdateStatusCall u] \<longrightarrow> obj_status obj' = obj_status u"
    and d': "obj_status d' = obj_status obj'"
  shows "patchStatus X h obj' d' state = ((Some obj', None), [])"
proof (cases "status_changed X d (statusData_of state)")
  case False
  with first have "obj' = obj" by (simp add: patchStatus_cases)
  with d d' have "obj_status d' = obj_status d" by simp
  with False have "\<not> status_changed X d' (statusData_of state)"
    by (simp add: status_changed_cong [of d' d])
  then show ?thesis by (simp add: patchStatus_cases)
next
  case True
  let ?st = "merge_status (case obj_status obj of None \<Rightarrow> [] | Some st \<Rightarrow> st) (statusData_of state)"
  from True first have "effects = [UpdateStatusCall (obj\<lparr>obj_status := Some ?st\<rparr>)]"
    by (simp add: patchStatus_cases)
  with stored d' have st: "obj_status d' = Some ?st" by simp
  have "status_String X d' k = ToString X v" if "(k, v) \<in> set (statusData_of state)" for k v
    using merge_status_lookup [OF distinct_statusData_of that] st
    by (simp add: status_String_def status_value_def)
  then show ?thesis by (intro patchStatus_unchanged) auto
qed

text \<open>
  Claim C6. When the string form of every desired field equals the string form of the
  stored value, \<open>patchStatus\<close> returns the object unchanged and makes no status update.
  Hence a second call is silent: if a first call on an object (with data that carry
  the status of the object) ends without error and the object it returns carries the
  status that was submitted, then the call with the same desired status on the
  returned object makes no status update.
\<close>

theorem patchStatus_idempotent:
  "((\<forall>(k, v)\<in>set (statusData_of state). status_String X d k = ToString X v) \<longrightarrow>
      patchStatus X h obj d state = ((Some obj, None), [])) \<and>
   (obj_status d1 = obj_status obj \<and>
    patchStatus X h obj d1 state = ((Some obj', None), effects) \<and>
    (\<forall>u. effects = [UpdateStatusCall u] \<longrightarrow> obj_status obj' = obj_status u) \<and>
    obj_status d2 = obj_status obj' \<longrightarrow>
      patchStatus X h obj' d2 state = ((Some obj', None), []))"
  using patchStatus_unchanged [of state X d h obj]
    patchStatus_second_call [of d1 obj X h state obj' effects d2]
  by blast

theorem patchStatus_idempotent_witness:
  "\<not> status_changed X0 cleared_obj (statusData_of status_complete) \<and>
   patchStatus X0 h0 stale_obj cleared_obj status_complete = ((Some stale_obj, None), []) \<and>
   patchStatus X0 h0 stale_obj stale_obj status_complete =
     ((Some cleared_obj, None), [UpdateStatusCall cleared_obj]) \<and>
   patchStatus X0 h0 cleared_obj cleared_obj status_complete = ((Some cleared_obj, None), [])"
proof -
  have same: "\<not> status_changed X0 cleared_obj (statusData_of status_complete)"
    by code_simp
  have h1: "\<forall>(k, v)\<in>set (statusData_of status_complete).
      status_String X0 cleared_obj k = ToString X0 v"
    using same unfolding status_changed_iff by blast
  have h2: "\<forall>u. [UpdateStatusCall cleared_obj] = [UpdateStatusCall u] \<longrightarrow>
      obj_status cleared_obj = obj_status u"
    by simp
  have h3: "obj_status stale_obj = obj_status stale_obj"
    and h4: "obj_status cleared_obj = obj_status cleared_obj"
    by simp_all
  note inst = patchStatus_idempotent [where state = status_complete and X = X0 and h = h0
      and d = cleared_obj and obj = stale_obj and obj' = cleared_obj
      and ?d1.0 = stale_obj and ?d2.0 = cleared_obj
      and effects = "[UpdateStatusCall cleared_obj]"]
  from inst h1 have c1:
    "patchStatus X0 h0 stale_obj cleared_obj status_complete = ((Some stale_obj, None), [])"
    by (rule conjunct1 [THEN mp])
  from inst have "obj_status stale_obj = obj_status stale_obj \<and>
      patchStatus X0 h0 stale_obj stale_obj status_complete =
        ((Some cleared_obj, None), [UpdateStatusCall cleared_obj]) \<and>
      (\<forall>u. [UpdateStatusCall cleared_obj] = [UpdateStatusCall u] \<longrightarrow>
        obj_status cleared_obj = obj_status u) \<and>
      obj_status cleared_obj = obj_status cleared_obj \<longrightarrow>
      patchStatus X0 h0 cleared_obj cleared_obj status_complete = ((Some cleared_obj, None), [])"
    by (rule conjunct2)
  with h3 patchStatus_stale_obj h2 h4 have c2:
    "patchStatus X0 h0 cleared_obj cleared_obj status_complete = ((Some cleared_obj, None), [])"
    by (iprover intro: conjI elim: mp)
  from same c1 patchStatus_stale_obj c2 show ?thesis
    by (intro conjI)
qed

section \<open>Properties of the condition patcher\<close>


















section \<open>Properties of the file materializer\<close>

text \<open>A pass of the loop leaves every other key of the config and of the secret alone.\<close>

lemma file_step_config_other:
  "k \<noteq> fst f \<Longrightarrow> k \<noteq> snd f \<Longrightarrow> map_of (fst (file_step X acc f)) k = map_of (fst acc) k"
  by (auto simp: file_step_def Let_def update_conv' delete_conv' split: option.splits jvalue.splits)

lemma file_step_secret_other:
  "n \<noteq> fileName_of X f \<Longrightarrow> map_of (snd (file_step X acc f)) n = map_of (snd acc) n"
  by (auto simp: file_step_def Let_def update_conv' split: option.splits jvalue.splits)

lemma foldl_config_other:
  "\<forall>f\<in>set fs. k \<noteq> fst f \<and> k \<noteq> snd f \<Longrightarrow>
   map_of (fst (foldl (file_step X) acc fs)) k = map_of (fst acc) k"
  by (induction fs arbitrary: acc) (simp_all add: file_step_config_other)

lemma foldl_secret_other:
  "\<forall>f\<in>set fs. n \<noteq> fileName_of X f \<Longrightarrow>
   map_of (snd (foldl (file_step X) acc fs)) n = map_of (snd acc) n"
  by (induction fs arbitrary: acc) (simp_all add: file_step_secret_other)

lemma distinct_map_others:
  "distinct (map p (pre @ f # post)) \<Longrightarrow> g \<in> set pre \<union> set post \<Longrightarrow> p g \<noteq> p f"
  by (auto simp: image_iff)

lemma no_collisions_others:
  assumes "no_collisions X (pre @ f # post)" and "g \<in> set pre \<union> set post"
  shows "fst g \<noteq> fst f \<and> snd g \<noteq> snd f \<and> fst g \<noteq> snd f \<and> snd g \<noteq> fst f \<and>
         fileName_of X g \<noteq> fileName_of X f"
proof -
  from assms have d1: "fst g \<noteq> fst f" and d2: "snd g \<noteq> snd f"
    and d3: "fileName_of X g \<noteq> fileName_of X f"
    unfolding no_collisions_def by (blast dest: distinct_map_others)+
  from d1 have ne: "g \<noteq> f" "f \<noteq> g" by auto
  from assms have "g \<in> set (pre @ f # post)" "f \<in> set (pre @ f # post)" by auto
  with assms(1) have "g = f \<or> snd g \<noteq> fst f" "f = g \<or> snd f \<noteq> fst g"
    unfolding no_collisions_def list_all_iff by blast+
  with ne have "snd g \<noteq> fst f" "fst g \<noteq> snd f" by auto
  with d1 d2 d3 show ?thesis by simp
qed

lemma file_step_not_string:
  "(\<And>c. map_of (fst acc) (fst f) \<noteq> Some (JString c)) \<Longrightarrow> file_step X acc f = acc"
  by (auto simp: file_step_def Let_def split: option.splits jvalue.splits)

lemma file_step_empty:
  "map_of (fst acc) (fst f) = Some (JString []) \<Longrightarrow>
   map_of (fst (file_step X acc f)) (fst f) = None \<and> snd (file_step X acc f) = snd acc"
  by (simp add: file_step_def Let_def delete_conv')

lemma file_step_content:
  "map_of (fst acc) (fst f) = Some (JString c) \<Longrightarrow> c \<noteq> [] \<Longrightarrow>
   map_of (snd (file_step X acc f)) (fileName_of X f) =
     Some (if HasSuffix c [newline] then c else c @ [newline]) \<and>
   map_of (fst (file_step X acc f)) (snd f) =
     Some (JString (path_Join X (pathToMachineFiles X) (fileName_of X f))) \<and>
   (fst f \<noteq> snd f \<longrightarrow> map_of (fst (file_step X acc f)) (fst f) = None)"
  by (simp add: file_step_def Let_def delete_conv' update_conv')

lemma HasSuffix_newline:
  "HasSuffix (if HasSuffix c [newline] then c else c @ [newline]) [newline]"
  by (simp add: HasSuffix_def)

lemma constructFilesSecret_field_aux:
  assumes nc: "no_collisions X (pre @ f # post)"
  shows "map_of (fst (foldl (file_step X) acc pre)) (fst f) = map_of (fst acc) (fst f)"
    and "map_of (snd (foldl (file_step X) acc pre)) (fileName_of X f) = map_of (snd acc) (fileName_of X f)"
    and "map_of (fst (foldl (file_step X) acc2 post)) (fst f) = map_of (fst acc2) (fst f)"
    and "map_of (fst (foldl (file_step X) acc2 post)) (snd f) = map_of (fst acc2) (snd f)"
    and "map_of (snd (foldl (file_step X) acc2 post)) (fileName_of X f) = map_of (snd acc2) (fileName_of X f)"
proof -
  have others: "fst g \<noteq> fst f \<and> snd g \<noteq> snd f \<and> fst g \<noteq> snd f \<and> snd g \<noteq> fst f \<and>
      fileName_of X g \<noteq> fileName_of X f" if "g \<in> set pre \<union> set post" for g
    using no_collisions_others [OF nc that] .
  have pre1: "\<forall>g\<in>set pre. fst f \<noteq> fst g \<and> fst f \<noteq> snd g"
    and pre2: "\<forall>g\<in>set pre. fileName_of X f \<noteq> fileName_of X g"
    and post1: "\<forall>g\<in>set post. fst f \<noteq> fst g \<and> fst f \<noteq> snd g"
    and post2: "\<forall>g\<in>set post. snd f \<noteq> fst g \<and> snd f \<noteq> snd g"
    and post3: "\<forall>g\<in>set post. fileName_of X f \<noteq> fileName_of X g"
    using others by (metis UnCI)+
  show "map_of (fst (foldl (file_step X) acc pre)) (fst f) = map_of (fst acc) (fst f)"
    by (rule foldl_config_other [OF pre1])
  show "map_of (snd (foldl (file_step X) acc pre)) (fileName_of X f) = map_of (snd acc) (fileName_of X f)"
    by (rule foldl_secret_other [OF pre2])
  show "map_of (fst (foldl (file_step X) acc2 post)) (fst f) = map_of (fst acc2) (fst f)"
    by (rule foldl_config_other [OF post1])
  show "map_of (fst (foldl (file_step X) acc2 post)) (snd f) = map_of (fst acc2) (snd f)"
    by (rule foldl_config_other [OF post2])
  show "map_of (snd (foldl (file_step X) acc2 post)) (fileName_of X f) = map_of (snd acc2) (fileName_of X f)"
    by (rule foldl_secret_other [OF post3])
qed

text \<open>
  Claim C9, as stated, fails. User data that already ends with two newlines is stored
  as it is: the secret entry ends with two newlines, not with exactly one.
\<close>

theorem constructFilesSecret_two_newlines_counterexample:
  "constructFilesSecret X0 ''amazonec2'' config_userdata =
     ([(''userdata'', JString ''/path/to/machine/files/userdata'')],
      Some [(''userdata'', ''#!/bin/sh'' @ [newline, newline])], None) \<and>
   \<not> exactly_one_trailing_newline (''#!/bin/sh'' @ [newline, newline])"
  by code_simp

text \<open>
  Claim C9, amended. Let the driver declare aliased fields in a table free of
  collisions. For every declared field and every spec map, the materializer returns a
  secret and no error, and:
  \<^item> a field that holds a non-empty string is stored in the secret under the driver
    field name, or under \<open>id_rsa\<close> when it is an SSH-key field; the stored bytes are the
    content, with a newline appended only when the content does not end with one, so
    they end with a newline; the driver field of the spec is set to the path joined
    from the directory of the machine files and the file name; and the schema field
    is gone from the spec unless it is the driver field itself;
  \<^item> a field that holds the empty string is removed and has no secret entry;
  \<^item> a field that is absent or holds no string is left as it is, with no secret entry.
\<close>

theorem constructFilesSecret_field:
  assumes table: "SchemaToDriverFields X driver = Some aliases"
    and nc: "no_collisions X aliases"
    and field: "(schemaField, driverField) \<in> set aliases"
  shows "\<exists>config' secretData.
     constructFilesSecret X driver config = (config', Some secretData, None) \<and>
     (let fileName = (if SSHKeyFields X schemaField then ''id_rsa'' else driverField)
      in case map_of config schemaField of
           Some (JString fileContents) \<Rightarrow>
             if fileContents = []
             then map_of config' schemaField = None \<and> map_of secretData fileName = None
             else
               (\<exists>bytes. map_of secretData fileName = Some bytes \<and>
                  bytes = (if HasSuffix fileContents [newline] then fileContents
                           else fileContents @ [newline]) \<and>
                  HasSuffix bytes [newline]) \<and>
               map_of config' driverField =
                 Some (JString (path_Join X (pathToMachineFiles X) fileName)) \<and>
               (schemaField \<noteq> driverField \<longrightarrow> map_of config' schemaField = None)
         | _ \<Rightarrow> map_of config' schemaField = map_of config schemaField \<and>
                map_of secretData fileName = None)"
proof -
  let ?f = "(schemaField, driverField)"
  from field obtain pre post where split: "aliases = pre @ ?f # post"
    by (auto dest: split_list)
  define acc1 where "acc1 = foldl (file_step X) (config, []) pre"
  define acc2 where "acc2 = file_step X acc1 ?f"
  define final where "final = foldl (file_step X) acc2 post"
  note aux = constructFilesSecret_field_aux [OF nc [unfolded split]]
  have a1: "map_of (fst acc1) schemaField = map_of config schemaField"
    and a2: "map_of (snd acc1) (fileName_of X ?f) = None"
    unfolding acc1_def using aux(1) [of "(config, [])"] aux(2) [of "(config, [])"] by simp_all
  have f1: "map_of (fst final) schemaField = map_of (fst acc2) schemaField"
    and f2: "map_of (fst final) driverField = map_of (fst acc2) driverField"
    and f3: "map_of (snd final) (fileName_of X ?f) = map_of (snd acc2) (fileName_of X ?f)"
    unfolding final_def using aux(3) [of acc2] aux(4) [of acc2] aux(5) [of acc2] by simp_all
  have fn: "fileName_of X ?f = (if SSHKeyFields X schemaField then ''id_rsa'' else driverField)"
    by (simp add: fileName_of_def)
  have res: "constructFilesSecret X driver config = (fst final, Some (snd final), None)"
    by (simp add: constructFilesSecret_def table split final_def acc2_def acc1_def Let_def)
  have "case map_of config schemaField of
           Some (JString fileContents) \<Rightarrow>
             if fileContents = []
             then map_of (fst final) schemaField = None \<and> map_of (snd final) (fileName_of X ?f) = None
             else
               map_of (snd final) (fileName_of X ?f) =
                 Some (if HasSuffix fileContents [newline] then fileContents
                       else fileContents @ [newline]) \<and>
               map_of (fst final) driverField =
                 Some (JString (path_Join X (pathToMachineFiles X) (fileName_of X ?f))) \<and>
               (schemaField \<noteq> driverField \<longrightarrow> map_of (fst final) schemaField = None)
         | _ \<Rightarrow> map_of (fst final) schemaField = map_of config schemaField \<and>
                map_of (snd final) (fileName_of X ?f) = None"
  proof (cases "\<exists>c. map_of config schemaField = Some (JString c)")
    case False
    then have "\<And>c. map_of (fst acc1) (fst ?f) \<noteq> Some (JString c)"
      using a1 by simp
    then have "file_step X acc1 ?f = acc1"
      by (rule file_step_not_string)
    then have "acc2 = acc1" by (simp add: acc2_def)
    with a1 a2 f1 f3 False show ?thesis
      by (auto split: option.splits jvalue.splits)
  next
    case True
    then obtain c where c: "map_of config schemaField = Some (JString c)" ..
    then have c1: "map_of (fst acc1) (fst ?f) = Some (JString c)"
      using a1 by simp
    show ?thesis
    proof (cases "c = []")
      case True
      with c1 file_step_empty [of acc1 ?f X] a2 f1 f3 c show ?thesis
        by (simp add: acc2_def)
    next
      case False
      with c1 file_step_content [of acc1 ?f c X] f1 f2 f3 c show ?thesis
        by (simp add: acc2_def)
    qed
  qed
  with res show ?thesis unfolding Let_def fn [symmetric]
    by (auto simp: HasSuffix_def split: option.splits jvalue.splits)
qed

theorem constructFilesSecret_field_witness:
  "SchemaToDriverFields X0 ''amazonec2'' =
     Some [(''sshKeyContents'', ''sshKeypath''), (''userdata'', ''userdata'')] \<and>
   no_collisions X0 [(''sshKeyContents'', ''sshKeypath''), (''userdata'', ''userdata'')] \<and>
   (''sshKeyContents'', ''sshKeypath'') \<in>
     set [(''sshKeyContents'', ''sshKeypath''), (''userdata'', ''userdata'')] \<and>
   constructFilesSecret X0 ''amazonec2'' config_key =
     ([(''region'', JString ''us-east-1''),
       (''sshKeypath'', JString ''/path/to/machine/files/id_rsa'')],
      Some [(''id_rsa'', ''KEY'' @ [newline])], None) \<and>
   (\<exists>config' secretData.
     constructFilesSecret X0 ''amazonec2'' config_key = (config', Some secretData, None) \<and>
     (\<exists>bytes. map_of secretData ''id_rsa'' = Some bytes \<and> bytes = ''KEY'' @ [newline] \<and>
        HasSuffix bytes [newline]) \<and>
     map_of config' ''sshKeypath'' = Some (JString ''/path/to/machine/files/id_rsa'') \<and>
     map_of config' ''sshKeyContents'' = None)"
proof -
  have table: "SchemaToDriverFields X0 ''amazonec2'' =
     Some [(''sshKeyContents'', ''sshKeypath''), (''userdata'', ''userdata'')]"
    by (simp add: X0_def)
  have nc: "no_collisions X0 [(''sshKeyContents'', ''sshKeypath''), (''userdata'', ''userdata'')]"
    by code_simp
  have field: "(''sshKeyContents'', ''sshKeypath'') \<in>
     set [(''sshKeyContents'', ''sshKeypath''), (''userdata'', ''userdata'')]"
    by simp
  have run: "constructFilesSecret X0 ''amazonec2'' config_key =
     ([(''region'', JString ''us-east-1''),
       (''sshKeypath'', JString ''/path/to/machine/files/id_rsa'')],
      Some [(''id_rsa'', ''KEY'' @ [newline])], None)"
    by code_simp
  have ssh: "SSHKeyFields X0 ''sshKeyContents''"
    and dir: "path_Join X0 (pathToMachineFiles X0) ''id_rsa'' = ''/path/to/machine/files/id_rsa''"
    and cfg: "map_of config_key ''sshKeyContents'' = Some (JString ''KEY'')"
    and nl: "\<not> HasSuffix ''KEY'' [newline]"
    by (simp_all add: X0_def ex_Join_def config_key_def HasSuffix_def newline_def)
  from constructFilesSecret_field [OF table nc field, of config_key]
  have "\<exists>config' secretData.
     constructFilesSecret X0 ''amazonec2'' config_key = (config', Some secretData, None) \<and>
     (\<exists>bytes. map_of secretData ''id_rsa'' = Some bytes \<and> bytes = ''KEY'' @ [newline] \<and>
        HasSuffix bytes [newline]) \<and>
     map_of config' ''sshKeypath'' = Some (JString ''/path/to/machine/files/id_rsa'') \<and>
     map_of config' ''sshKeyContents'' = None"
    by (simp add: Let_def ssh dir cfg nl)
  with table nc field run show ?thesis
    by (intro conjI)
qed

end
